theory Spec2Isabelle
  imports Complex_Main
begin

section \<open>Strings as Python sees them\<close>

text \<open>
  A Python \<open>str\<close> is modelled as a \<open>string\<close> whose characters are the code points
  below 256. The helpers below are the methods of \<open>str\<close> that the program calls.
\<close>

definition code :: "char \<Rightarrow> nat" where
  "code c = of_char c"

definition is_space :: "char \<Rightarrow> bool" where
  \<comment> \<open>\<open>str.isspace\<close> and the regex class \<open>\s\<close> on code points below 256\<close>
  "is_space c = (let n = code c in
     (9 \<le> n \<and> n \<le> 13) \<or> (28 \<le> n \<and> n \<le> 32) \<or> n = 133 \<or> n = 160)"

definition is_digit :: "char \<Rightarrow> bool" where
  "is_digit c = (let n = code c in 48 \<le> n \<and> n \<le> 57)"

definition is_upper :: "char \<Rightarrow> bool" where
  "is_upper c = (let n = code c in 65 \<le> n \<and> n \<le> 90)"

definition is_lower :: "char \<Rightarrow> bool" where
  "is_lower c = (let n = code c in 97 \<le> n \<and> n \<le> 122)"

fun split_acc :: "string \<Rightarrow> string \<Rightarrow> string list" where
  "split_acc cur [] = (if cur = [] then [] else [rev cur])"
| "split_acc cur (c # cs) =
     (if is_space c then (if cur = [] then [] else [rev cur]) @ split_acc [] cs
      else split_acc (c # cur) cs)"

definition split_ws :: "string \<Rightarrow> string list" where
  \<comment> \<open>\<open>text.split()\<close>: the maximal runs of non-whitespace characters\<close>
  "split_ws s = split_acc [] s"

definition word_count :: "string \<Rightarrow> nat" where
  \<comment> \<open>\<open>len(text.split())\<close>\<close>
  "word_count s = length (split_ws s)"

fun join :: "string \<Rightarrow> string list \<Rightarrow> string" where
  \<comment> \<open>\<open>sep.join(xs)\<close>\<close>
  "join sep [] = []"
| "join sep [x] = x"
| "join sep (x # y # ys) = x @ sep @ join sep (y # ys)"

definition strip :: "string \<Rightarrow> string" where
  \<comment> \<open>\<open>s.strip()\<close>\<close>
  "strip s = rev (dropWhile is_space (rev (dropWhile is_space s)))"



definition startswith :: "string \<Rightarrow> string \<Rightarrow> bool" where
  \<comment> \<open>\<open>s.startswith(p)\<close>\<close>
  "startswith s p = (take (length p) s = p)"


section \<open>Video id extraction (simple\_app.py, \<open>extract_video_id\<close>)\<close>

definition id_char :: "char \<Rightarrow> bool" where
  \<comment> \<open>the character class \<open>[0-9A-Za-z_-]\<close>\<close>
  "id_char c = (is_digit c \<or> is_upper c \<or> is_lower c \<or> c = CHR ''_'' \<or> c = CHR ''-'')"

definition id11 :: "string \<Rightarrow> string option" where
  \<comment> \<open>the group \<open>([0-9A-Za-z_-]{11})\<close> matched at the start of \<open>s\<close>\<close>
  "id11 s = (if 11 \<le> length s \<and> list_all id_char (take 11 s) then Some (take 11 s) else None)"

fun re_search :: "(string \<Rightarrow> 'a option) \<Rightarrow> string \<Rightarrow> 'a option" where
  \<comment> \<open>\<open>re.search\<close>: the match at the leftmost position where the pattern matches\<close>
  "re_search m [] = m []"
| "re_search m (c # cs) = (case m (c # cs) of Some r \<Rightarrow> Some r | None \<Rightarrow> re_search m cs)"

definition pat_standard :: "string \<Rightarrow> string option" where
  \<comment> \<open>\<open>(?:v=|\/)([0-9A-Za-z_-]{11}).*\<close> at one position\<close>
  "pat_standard s =
     (if startswith s ''v='' then id11 (drop 2 s)
      else if startswith s ''/'' then id11 (drop 1 s)
      else None)"

definition pat_short :: "string \<Rightarrow> string option" where
  \<comment> \<open>\<open>(?:youtu\.be\/)([0-9A-Za-z_-]{11})\<close> at one position\<close>
  "pat_short s = (if startswith s ''youtu.be/'' then id11 (drop 9 s) else None)"

definition pat_shorts :: "string \<Rightarrow> string option" where
  \<comment> \<open>\<open>(?:shorts\/)([0-9A-Za-z_-]{11})\<close> at one position\<close>
  "pat_shorts s = (if startswith s ''shorts/'' then id11 (drop 7 s) else None)"

definition pat_direct :: "string \<Rightarrow> string option" where
  \<comment> \<open>\<open>^([0-9A-Za-z_-]{11})$\<close>: \<open>$\<close> matches at the end and before a final newline\<close>
  "pat_direct s =
     (case id11 s of
        None \<Rightarrow> None
      | Some v \<Rightarrow> (if drop 11 s = [] \<or> drop 11 s = [CHR 0x0A] then Some v else None))"

definition extract_video_id :: "string \<Rightarrow> string option" where
  "extract_video_id url =
     (case re_search pat_standard url of Some v \<Rightarrow> Some v | None \<Rightarrow>
      (case re_search pat_short url of Some v \<Rightarrow> Some v | None \<Rightarrow>
       (case re_search pat_shorts url of Some v \<Rightarrow> Some v | None \<Rightarrow>
        pat_direct url)))"

section \<open>Relevance scoring\<close>

subsection \<open>api\_server.py, \<open>calculate_relevance\<close>\<close>



subsection \<open>chat\_agent\_improved.py, \<open>_calculate_relevance\<close>\<close>





function split_sep :: "string \<Rightarrow> string \<Rightarrow> string \<Rightarrow> string list" where
  "split_sep sep cur [] = [rev cur]"
| "split_sep sep cur (c # cs) =
     (if startswith (c # cs) sep then rev cur # split_sep sep [] (drop (length sep - 1) cs)
      else split_sep sep (c # cur) cs)"
  by pat_completeness auto
termination
  by (relation "measure (\<lambda>(sep, cur, s). length s)") auto

definition split_on :: "string \<Rightarrow> string \<Rightarrow> string list" where
  \<comment> \<open>\<open>s.split(sep)\<close> for a non-empty separator: cut at the occurrences of \<open>sep\<close>, left to right\<close>
  "split_on sep s = split_sep sep [] s"

function show_nat :: "nat \<Rightarrow> string" where
  \<comment> \<open>the decimal digits of a non-negative int, as \<open>str(n)\<close> and \<open>f"{n}"\<close> print it\<close>
  "show_nat n = (if n < 10 then [char_of (48 + n)] else show_nat (n div 10) @ [char_of (48 + n mod 10)])"
  by pat_completeness auto
termination
  by (relation "measure id") auto

declare show_nat.simps [simp del]

definition show_02d :: "nat \<Rightarrow> string" where
  \<comment> \<open>\<open>f"{n:02d}"\<close>: at least two digits\<close>
  "show_02d n = (if n < 10 then CHR ''0'' # show_nat n else show_nat n)"

definition nl :: string where
  \<comment> \<open>the one-character string \<open>"\n"\<close>\<close>
  "nl = [CHR 0x0A]"

section \<open>Key-point parsing\<close>

record key_point =
  timestamp :: string
  point :: string

subsection \<open>improved\_summary\_agent.py, the parsing loop of \<open>extract_key_points_with_openai\<close>\<close>

definition ts_match_here :: "string \<Rightarrow> string option" where
  \<comment> \<open>\<open>\[(\d+:?\d*)\]\<close> at one position; the result is group 1\<close>
  "ts_match_here s =
     (case s of
        [] \<Rightarrow> None
      | c # r \<Rightarrow>
          if c \<noteq> CHR ''['' then None
          else let ds = takeWhile is_digit r; r1 = dropWhile is_digit r in
            if ds = [] then None
            else (case r1 of
                    [] \<Rightarrow> None
                  | x # r2 \<Rightarrow>
                      if x = CHR '']'' then Some ds
                      else if x = CHR '':'' then
                        (let ds2 = takeWhile is_digit r2; r3 = dropWhile is_digit r2 in
                         case r3 of
                           [] \<Rightarrow> None
                         | y # _ \<Rightarrow> if y = CHR '']'' then Some (ds @ '':'' @ ds2) else None)
                      else None))"

definition after_first_bracket :: "string \<Rightarrow> string" where
  \<comment> \<open>\<open>line[line.find("]") + 1:]\<close>; \<open>find\<close> gives -1 when there is no bracket\<close>
  "after_first_bracket line =
     (if CHR '']'' \<in> set line then drop 1 (dropWhile (\<lambda>c. c \<noteq> CHR '']'') line) else line)"

definition parse_line :: "string \<Rightarrow> key_point option" where
  \<comment> \<open>one pass of the loop body: the key point appended for this line, if any\<close>
  "parse_line raw =
     (let line = strip raw in
      if line = [] then None
      else case re_search ts_match_here line of
        None \<Rightarrow> None
      | Some ts \<Rightarrow>
          let ts' = (if CHR '':'' \<notin> set ts then ts @ '':00'' else ts);
              point_text = strip (after_first_bracket line)
          in if point_text \<noteq> [] then Some \<lparr>timestamp = ts', point = point_text\<rparr> else None)"

fun parse_lines :: "key_point list \<Rightarrow> string list \<Rightarrow> key_point list" where
  "parse_lines key_points [] = key_points"
| "parse_lines key_points (l # ls) =
     (case parse_line l of
        None \<Rightarrow> parse_lines key_points ls
      | Some kp \<Rightarrow> parse_lines (key_points @ [kp]) ls)"

definition parse_key_points :: "string \<Rightarrow> key_point list" where
  \<comment> \<open>lines 324 to 342: \<open>key_points = []\<close>, then the loop over \<open>key_points_text.split("\n")\<close>\<close>
  "parse_key_points key_points_text = parse_lines [] (split_on nl key_points_text)"

subsection \<open>openai\_summarizer.py, the parsing loop of \<open>extract_key_points\<close>\<close>

definition strip_numbering :: "string \<Rightarrow> string" where
  \<comment> \<open>\<open>re.sub(r'^\d+\.\s*', '', line)\<close>\<close>
  "strip_numbering line =
     (let ds = takeWhile is_digit line; r = dropWhile is_digit line in
      if ds \<noteq> [] \<and> startswith r ''.'' then dropWhile is_space (drop 1 r) else line)"

definition dash_match :: "string \<Rightarrow> (string \<times> string) option" where
  \<comment> \<open>\<open>re.match(r'([0-9]+:[0-9]+)\s*-\s*(.+)', line)\<close> on a line without newline: groups 1 and 2\<close>
  "dash_match line =
     (let m = takeWhile is_digit line; r = dropWhile is_digit line in
      if m = [] \<or> \<not> startswith r '':'' then None
      else let s = takeWhile is_digit (drop 1 r); r1 = dropWhile is_digit (drop 1 r) in
        if s = [] then None
        else let r2 = dropWhile is_space r1 in
          if \<not> startswith r2 ''-'' then None
          else let r3 = dropWhile is_space (drop 1 r2) in
            if r3 = [] then None else Some (m @ '':'' @ s, r3))"

definition openai_parse_line :: "string \<Rightarrow> key_point option" where
  "openai_parse_line raw =
     (let line = strip raw in
      if line = [] \<or> startswith line ''#'' \<or> startswith line ''KEY POINTS'' then None
      else case dash_match (strip_numbering line) of
        None \<Rightarrow> None
      | Some (ts, p) \<Rightarrow> Some \<lparr>timestamp = ts, point = strip p\<rparr>)"

fun openai_parse_lines :: "key_point list \<Rightarrow> string list \<Rightarrow> key_point list" where
  "openai_parse_lines key_points [] = key_points"
| "openai_parse_lines key_points (l # ls) =
     (case openai_parse_line l of
        None \<Rightarrow> openai_parse_lines key_points ls
      | Some kp \<Rightarrow> openai_parse_lines (key_points @ [kp]) ls)"

definition openai_parse_key_points :: "string \<Rightarrow> key_point list" where
  \<comment> \<open>lines 190 to 207\<close>
  "openai_parse_key_points key_points_text = openai_parse_lines [] (split_on nl key_points_text)"

section \<open>Transcript fetching\<close>

text \<open>
  \<open>YouTubeTranscriptApi.get_transcript\<close> is the external transcript source. It either
  raises (no captions, video not found; the exception's message is kept) or returns the
  segments, each with its start in seconds and its text. The start is a float in the
  program and a rational here.
\<close>

datatype fetch_result = FetchError string | Fetched "(rat \<times> string) list"

type_synonym transcript_api = "string \<Rightarrow> fetch_result"

record transcript_line =
  startTime :: string
  line_text :: string

subsection \<open>api\_server.py, \<open>get_transcript\<close> and \<open>generate_mock_transcript\<close>\<close>

definition generate_mock_transcript :: "string \<Rightarrow> transcript_line list" where
  "generate_mock_transcript video_id =
    [\<lparr>startTime = ''0:00:00'', line_text = ''Hello and welcome to this video.''\<rparr>,
     \<lparr>startTime = ''0:00:05'', line_text = ''Today we will be discussing an important topic.''\<rparr>,
     \<lparr>startTime = ''0:00:10'', line_text = ''This is a key point that you should remember.''\<rparr>,
     \<lparr>startTime = ''0:00:15'', line_text = ''Another important concept to understand.''\<rparr>,
     \<lparr>startTime = ''0:00:20'', line_text = ''Let me explain this in more detail.''\<rparr>,
     \<lparr>startTime = ''0:00:25'', line_text = ''This is how you can apply this knowledge.''\<rparr>,
     \<lparr>startTime = ''0:00:30'', line_text = ''Let'' @ [CHR 0x27] @ ''s summarize what we'' @ [CHR 0x27] @ ''ve learned.''\<rparr>,
     \<lparr>startTime = ''0:00:35'', line_text = ''Thank you for watching this video.''\<rparr>,
     \<lparr>startTime = ''0:00:40'', line_text = ''Don'' @ [CHR 0x27] @ ''t forget to like and subscribe.''\<rparr>,
     \<lparr>startTime = ''0:00:45'', line_text = ''See you in the next video!''\<rparr>]"

definition show_int :: "int \<Rightarrow> string" where
  "show_int i = (if i < 0 then CHR ''-'' # show_nat (nat (- i)) else show_nat (nat i))"

definition format_item :: "rat \<times> string \<Rightarrow> transcript_line" where
  \<comment> \<open>\<open>H:MM:SS\<close> from the start in seconds, by floor division and remainder\<close>
  "format_item item =
     (let start_seconds = fst item;
          hours = \<lfloor>start_seconds / 3600\<rfloor>;
          minutes = \<lfloor>(start_seconds - 3600 * of_int \<lfloor>start_seconds / 3600\<rfloor>) / 60\<rfloor>;
          seconds = \<lfloor>start_seconds - 60 * of_int \<lfloor>start_seconds / 60\<rfloor>\<rfloor>
      in \<lparr>startTime = show_int hours @ '':'' @ show_02d (nat minutes) @ '':'' @ show_02d (nat seconds),
          line_text = snd item\<rparr>)"

definition get_transcript :: "bool \<Rightarrow> transcript_api \<Rightarrow> string \<Rightarrow> transcript_line list" where
  \<comment> \<open>the first argument is the module flag \<open>youtube_api_available\<close>\<close>
  "get_transcript youtube_api_available api video_id =
     (if youtube_api_available then
        (case api video_id of
           Fetched transcript_list \<Rightarrow> map format_item transcript_list
         | FetchError e \<Rightarrow> generate_mock_transcript video_id)
      else generate_mock_transcript video_id)"

subsection \<open>improved\_transcript\_agent.py, \<open>ImprovedTranscriptAgent.process\<close>\<close>

datatype http_exception = HTTPException nat string

definition transcript_agent_process :: "transcript_api \<Rightarrow> string \<Rightarrow> http_exception + string" where
  "transcript_agent_process api video_id =
     (case api video_id of
        Fetched transcript_list \<Rightarrow> Inr (join '' '' (map snd transcript_list))
      | FetchError e \<Rightarrow> Inl (HTTPException 404 (''Failed to get transcript: '' @ e)))"

section \<open>Video comparison (video\_comparison.py)\<close>

text \<open>
  A summary handed to the comparison is a dict or an object. A dict is its list of
  string fields; an object is its \<open>title\<close> and \<open>videoId\<close> attributes, each absent or
  a string.
\<close>

datatype summary_item = DictItem "(string \<times> string) list" | ObjItem "string option" "string option"

record ComparisonResult =
  commonTopics :: "string list"
  differences :: "string list"
  recommendation :: string

fun fallback_title :: "nat \<Rightarrow> summary_item \<Rightarrow> string" where
  \<comment> \<open>the body of the title loop of \<open>_generate_fallback_comparison\<close>, for the item of index \<open>i\<close>\<close>
  "fallback_title i (DictItem d) =
     (case map_of d ''title'' of
        Some t \<Rightarrow> t
      | None \<Rightarrow> (case map_of d ''videoId'' of
                   Some v \<Rightarrow> ''YouTube Video '' @ v
                 | None \<Rightarrow> ''Video '' @ show_nat (i + 1)))"
| "fallback_title i (ObjItem t v) =
     (if t \<noteq> None \<and> t \<noteq> Some [] then the t
      else if v \<noteq> None \<and> v \<noteq> Some [] then ''YouTube Video '' @ the v
      else ''Video '' @ show_nat (i + 1))"

fun fallback_titles :: "nat \<Rightarrow> summary_item list \<Rightarrow> string list" where
  "fallback_titles i [] = []"
| "fallback_titles i (s # ss) = fallback_title i s # fallback_titles (i + 1) ss"

definition generate_fallback_comparison :: "summary_item list \<Rightarrow> ComparisonResult" where
  "generate_fallback_comparison summaries =
     (let titles = fallback_titles 0 summaries in
      \<lparr>commonTopics = [''Both videos discuss related topics'', ''They share educational content''],
       differences =
         [if length titles > 1
          then titles ! 0 @ '' focuses more on theory, while '' @ titles ! 1 @ '' is more practical''
          else ''Videos have different approaches'',
          if length titles > 1
          then titles ! 0 @ '' is more detailed in some areas, while '' @ titles ! 1 @ '' covers additional points''
          else ''Videos cover different aspects of the topic''],
       recommendation =
         (if length titles > 1
          then ''Watch '' @ titles ! 0 @ '' first for background, then '' @ titles ! 1 @ '' for practical applications.''
          else ''Watch videos in any order based on your interest.'')\<rparr>)"

text \<open>
  What the completion request of \<open>compare_videos\<close> comes to: the call raises, or its
  content is not JSON of the expected shape (\<open>json.loads\<close>, \<open>.get\<close> or the
  \<open>ComparisonResult\<close> constructor raises), or it parses, each of the three keys being
  absent or present.
\<close>

datatype comparison_reply =
    CallFailed
  | Unparsable
  | Parsed "string list option" "string list option" "string option"

definition compare_videos :: "bool \<Rightarrow> comparison_reply \<Rightarrow> summary_item list \<Rightarrow> ComparisonResult" where
  \<comment> \<open>the first argument is the truth of \<open>self.openai_api_key\<close>; an empty list raises at
      \<open>summaries[0]\<close> and is caught by the outer handler\<close>
  "compare_videos api_key reply summaries =
     (if summaries = [] then generate_fallback_comparison summaries
      else if \<not> api_key then generate_fallback_comparison summaries
      else case reply of
        CallFailed \<Rightarrow> generate_fallback_comparison summaries
      | Unparsable \<Rightarrow> generate_fallback_comparison summaries
      | Parsed ct df rc \<Rightarrow>
          \<lparr>commonTopics = (case ct of None \<Rightarrow> [] | Some x \<Rightarrow> x),
           differences = (case df of None \<Rightarrow> [] | Some x \<Rightarrow> x),
           recommendation = (case rc of None \<Rightarrow> [] | Some x \<Rightarrow> x)\<rparr>)"

definition carries_title :: "summary_item \<Rightarrow> string \<Rightarrow> bool" where
  \<comment> \<open>the item has the title \<open>t\<close>: the dict's \<open>title\<close> key, or the object's non-empty attribute\<close>
  "carries_title s t =
     (case s of
        DictItem d \<Rightarrow> map_of d ''title'' = Some t
      | ObjItem a v \<Rightarrow> a = Some t \<and> t \<noteq> [])"

definition mentions_in_order :: "string \<Rightarrow> string \<Rightarrow> string \<Rightarrow> bool" where
  \<comment> \<open>\<open>a\<close> occurs in \<open>s\<close> and \<open>b\<close> occurs after that occurrence\<close>
  "mentions_in_order s a b = (\<exists>pre mid post. s = pre @ a @ mid @ b @ post)"

definition no_captions_api :: transcript_api where
  \<comment> \<open>a transcript source that fails for every video\<close>
  "no_captions_api video_id = FetchError ''Subtitles are disabled for this video''"

section \<open>The chunker (openai\_summarizer.py)\<close>

definition is_word_char :: "char \<Rightarrow> bool" where
  \<comment> \<open>the regex class \<open>\w\<close> on code points below 256\<close>
  "is_word_char c = (let n = code c in
     is_digit c \<or> is_upper c \<or> is_lower c \<or> n = 95 \<or> n = 170 \<or> n = 178 \<or> n = 179 \<or> n = 181
     \<or> n = 185 \<or> n = 186 \<or> (188 \<le> n \<and> n \<le> 190) \<or> (192 \<le> n \<and> n \<le> 214)
     \<or> (216 \<le> n \<and> n \<le> 246) \<or> (248 \<le> n \<and> n \<le> 255))"

definition sentence_gap :: "string \<Rightarrow> char \<Rightarrow> bool" where
  \<comment> \<open>\<open>(?<!\.\w.)(?<![A-Z][a-z]\.)(?<=\.|\?|\!)\s\<close> matches the character \<open>c\<close>;
      \<open>prev\<close> is the text before \<open>c\<close>, last character first\<close>
  "sentence_gap prev c =
     (is_space c \<and>
      (case prev of
         [] \<Rightarrow> False
       | p1 # r \<Rightarrow>
           (p1 = CHR ''.'' \<or> p1 = CHR ''?'' \<or> p1 = CHR ''!'')
           \<and> \<not> (case r of p2 # p3 # _ \<Rightarrow> p3 = CHR ''.'' \<and> is_word_char p2 \<and> p1 \<noteq> CHR 0x0A | _ \<Rightarrow> False)
           \<and> \<not> (case r of p2 # p3 # _ \<Rightarrow> is_upper p3 \<and> is_lower p2 \<and> p1 = CHR ''.'' | _ \<Rightarrow> False)))"

fun re_split_acc :: "(string \<Rightarrow> char \<Rightarrow> bool) \<Rightarrow> string \<Rightarrow> string \<Rightarrow> string \<Rightarrow> string list" where
  \<comment> \<open>\<open>re.split\<close> for a pattern that matches single characters: \<open>prev\<close> is the text
      already read (reversed), \<open>cur\<close> the piece being read (reversed)\<close>
  "re_split_acc gap prev cur [] = [rev cur]"
| "re_split_acc gap prev cur (c # cs) =
     (if gap prev c then rev cur # re_split_acc gap (c # prev) [] cs
      else re_split_acc gap (c # prev) (c # cur) cs)"

definition re_split :: "(string \<Rightarrow> char \<Rightarrow> bool) \<Rightarrow> string \<Rightarrow> string list" where
  "re_split gap s = re_split_acc gap [] [] s"

fun combine_loop :: "nat \<Rightarrow> string list \<Rightarrow> string list \<Rightarrow> nat \<Rightarrow> string list \<Rightarrow> string list" where
  \<comment> \<open>the loop of \<open>_combine_units\<close> with its three variables, and the code after the loop\<close>
  "combine_loop chunk_size chunks current_chunk current_size [] =
     (if current_chunk \<noteq> [] then chunks @ [join '' '' current_chunk] else chunks)"
| "combine_loop chunk_size chunks current_chunk current_size (unit # units) =
     (let unit_size = word_count unit in
      if current_size + unit_size \<le> chunk_size
      then combine_loop chunk_size chunks (current_chunk @ [unit]) (current_size + unit_size) units
      else combine_loop chunk_size
             (if current_chunk \<noteq> [] then chunks @ [join '' '' current_chunk] else chunks)
             [unit] unit_size units)"

definition combine_units :: "string list \<Rightarrow> nat \<Rightarrow> string list" where
  "combine_units units chunk_size = combine_loop chunk_size [] [] 0 units"

definition split_units :: "string \<Rightarrow> string list" where
  \<comment> \<open>the units \<open>_split_into_chunks\<close> packs: paragraphs, or sentences when there are fewer
      than three paragraphs\<close>
  "split_units text' =
     (let paragraphs = split_on (nl @ nl) text' in
      if length paragraphs < 3 then re_split sentence_gap text' else paragraphs)"

definition split_into_chunks :: "string \<Rightarrow> nat \<Rightarrow> string list" where
  "split_into_chunks text' chunk_size = combine_units (split_units text') chunk_size"

section \<open>The completion endpoint\<close>

text \<open>
  \<open>openai.chat.completions.create\<close> is the external language model. A request either
  raises (rate limit, network, a response without content) or yields the content of the
  first choice. The model is a function of the request and of the number of requests made
  before it, so it may answer the same request differently on each attempt. The world
  records what the program did: the requests it sent and the seconds it slept, in order.
\<close>

datatype completion = ApiError | Content string

record request =
  model :: string
  system_msg :: string
  user_msg :: string
  max_tokens :: nat
  temperature :: rat

type_synonym llm = "nat \<Rightarrow> request \<Rightarrow> completion"

record world =
  requests :: "request list"
  sleeps :: "nat list"

definition create_completion :: "llm \<Rightarrow> request \<Rightarrow> world \<Rightarrow> completion \<times> world" where
  "create_completion llm req w = (llm (length (requests w)) req, w\<lparr>requests := requests w @ [req]\<rparr>)"

definition sleep :: "nat \<Rightarrow> world \<Rightarrow> world" where
  \<comment> \<open>\<open>time.sleep(n)\<close>\<close>
  "sleep n w = w\<lparr>sleeps := sleeps w @ [n]\<rparr>"

definition max_retries :: nat where
  "max_retries = 3"

fun retry_loop :: "nat \<Rightarrow> llm \<Rightarrow> request \<Rightarrow> nat list \<Rightarrow> world \<Rightarrow> string option \<times> world" where
  \<comment> \<open>\<open>for attempt in range(max_retries)\<close> around one request: the stripped content is
      returned when it is longer than \<open>min_len\<close>; an exception is followed by
      \<open>time.sleep(2)\<close> unless the attempt is the last; \<open>None\<close> when the loop runs out\<close>
  "retry_loop min_len llm req [] w = (None, w)"
| "retry_loop min_len llm req (attempt # rest) w =
     (case create_completion llm req w of
        (Content c, w') \<Rightarrow>
          (let summary = strip c in
           if summary \<noteq> [] \<and> length summary > min_len then (Some summary, w')
           else retry_loop min_len llm req rest w')
      | (ApiError, w') \<Rightarrow>
          retry_loop min_len llm req rest (if attempt < max_retries - 1 then sleep 2 w' else w'))"

fun label_parts :: "nat \<Rightarrow> string list \<Rightarrow> string list" where
  \<comment> \<open>\<open>[f"Part {i+1}: {summary}" for i, summary in enumerate(chunk_summaries)]\<close>\<close>
  "label_parts i [] = []"
| "label_parts i (summary # rest) =
     (''Part '' @ show_nat (i + 1) @ '': '' @ summary) # label_parts (i + 1) rest"

section \<open>OpenAISummarizer (openai\_summarizer.py)\<close>

definition summarize_prompt :: "string \<Rightarrow> string" where
  "summarize_prompt text' =
     ''Please provide a comprehensive yet concise summary of the following text. \<newline>''
     @ ''            The summary should capture the main points and key insights from the entire text.\<newline>''
     @ ''            Focus on the most important information and ensure the summary gives a complete overview.\<newline>''
     @ ''            \<newline>''
     @ ''            TEXT TO SUMMARIZE:\<newline>''
     @ ''            ''
     @ text'
     @ ''\<newline>''
     @ ''            \<newline>''
     @ ''            SUMMARY:''"

definition final_summary_prompt :: "string \<Rightarrow> string" where
  "final_summary_prompt combined_summary =
     ''Below are summaries of different parts of a text.\<newline>''
     @ ''            Please create a comprehensive yet concise final summary that integrates all these parts into a coherent overview.\<newline>''
     @ ''            Focus on the most important points and ensure the summary gives a complete picture of the content.\<newline>''
     @ ''            \<newline>''
     @ ''            PART SUMMARIES:\<newline>''
     @ ''            ''
     @ combined_summary
     @ ''\<newline>''
     @ ''            \<newline>''
     @ ''            FINAL COMPREHENSIVE SUMMARY:''"

definition summarizer_system :: string where
  "summarizer_system =
     ''You are an expert video summarizer. Create concise, informative summaries that capture the essence of content.''"

definition synthesis_system :: string where
  "synthesis_system =
     ''You are an expert at creating comprehensive summaries from partial summaries. Create a coherent, flowing summary that captures the essence of the entire content.''"

definition summarize_request :: "string \<Rightarrow> nat \<Rightarrow> request" where
  "summarize_request text' max_length =
     \<lparr>model = ''gpt-3.5-turbo-16k'', system_msg = summarizer_system,
      user_msg = summarize_prompt text', max_tokens = max_length * 4, temperature = 1 / 2\<rparr>"

definition final_summary_request :: "string \<Rightarrow> nat \<Rightarrow> request" where
  "final_summary_request combined_summary max_length =
     \<lparr>model = ''gpt-3.5-turbo-16k'', system_msg = synthesis_system,
      user_msg = final_summary_prompt combined_summary, max_tokens = max_length * 4,
      temperature = 1 / 2\<rparr>"

datatype py_error = RecursionError

text \<open>
  \<open>summarize\<close> calls \<open>summarize_long_text\<close> for a text of more than 4000 words, which
  calls \<open>summarize\<close> on each chunk; a chunk that is one unit of more than 4000 words is
  the text itself, so the recursion need not end. The first argument is the number of
  nested \<open>summarize\<close> calls the interpreter still allows; at 0 the call raises
  \<open>RecursionError\<close>, which the handler \<open>except Exception\<close> of the enclosing
  \<open>summarize\<close> catches. \<open>_simple_summarize\<close> scores sentences in floating point and is
  a parameter, \<open>simple\<close>.
\<close>

fun summarize ::
    "nat \<Rightarrow> (string \<Rightarrow> nat \<Rightarrow> string) \<Rightarrow> llm \<Rightarrow> string \<Rightarrow> nat \<Rightarrow> nat \<Rightarrow> world
      \<Rightarrow> (py_error + string) \<times> world"
  and summarize_long_text ::
    "nat \<Rightarrow> (string \<Rightarrow> nat \<Rightarrow> string) \<Rightarrow> llm \<Rightarrow> string \<Rightarrow> nat \<Rightarrow> nat \<Rightarrow> world
      \<Rightarrow> (py_error + string) \<times> world"
  and summarize_chunks ::
    "nat \<Rightarrow> (string \<Rightarrow> nat \<Rightarrow> string) \<Rightarrow> llm \<Rightarrow> string list \<Rightarrow> nat \<Rightarrow> nat \<Rightarrow> world
      \<Rightarrow> (py_error + string list) \<times> world"
where
  "summarize 0 simple llm text' max_length min_length w = (Inl RecursionError, w)"
| "summarize (Suc d) simple llm text' max_length min_length w =
     (if text' = [] \<or> word_count text' < 100 then (Inr text', w)
      else if word_count text' > 4000 then
        (case summarize_long_text d simple llm text' max_length min_length w of
           (Inr s, w') \<Rightarrow> (Inr s, w')
         | (Inl e, w') \<Rightarrow> (Inr (simple text' max_length), w'))
      else
        (case retry_loop 50 llm (summarize_request text' max_length) [0..<max_retries] w of
           (Some s, w') \<Rightarrow> (Inr s, w')
         | (None, w') \<Rightarrow> (Inr (simple text' max_length), w')))"
| "summarize_long_text d simple llm text' max_length min_length w =
     (case summarize_chunks d simple llm (split_into_chunks text' 4000)
             (max_length div 2) (min_length div 2) w of
        (Inl e, w') \<Rightarrow> (Inl e, w')
      | (Inr chunk_summaries, w') \<Rightarrow>
          (let combined_summary = join (nl @ nl) (label_parts 0 chunk_summaries) in
           if 2 * word_count combined_summary > 3 * max_length then
             (case create_completion llm (final_summary_request combined_summary max_length) w' of
                (Content c, w'') \<Rightarrow> (Inr (strip c), w'')
              | (ApiError, w'') \<Rightarrow> (Inr (join '' '' chunk_summaries), w''))
           else (Inr combined_summary, w')))"
| "summarize_chunks d simple llm [] max_length min_length w = (Inr [], w)"
| "summarize_chunks d simple llm (chunk # chunks) max_length min_length w =
     (case summarize d simple llm chunk max_length min_length w of
        (Inl e, w') \<Rightarrow> (Inl e, w')
      | (Inr chunk_summary, w') \<Rightarrow>
          (case summarize_chunks d simple llm chunks max_length min_length w' of
             (Inl e, w'') \<Rightarrow> (Inl e, w'')
           | (Inr rest, w'') \<Rightarrow> (Inr (chunk_summary # rest), w'')))"

section \<open>ImprovedSummaryAgent (improved\_summary\_agent.py)\<close>

definition chunk_prompt :: "string \<Rightarrow> string \<Rightarrow> string \<Rightarrow> string \<Rightarrow> string" where
  "chunk_prompt part parts video_title chunk =
     ''Below is part ''
     @ part
     @ '' of ''
     @ parts
     @ '' from the transcript of a YouTube video titled ''
     @ [CHR 0x27]
     @ video_title
     @ [CHR 0x27]
     @ ''.\<newline>''
     @ ''                    Please provide a brief summary (100-150 words) of THIS PART ONLY, focusing on the main points and key insights.\<newline>''
     @ ''                    \<newline>''
     @ ''                    TRANSCRIPT PART ''
     @ part
     @ ''/''
     @ parts
     @ '':\<newline>''
     @ ''                    ''
     @ chunk
     @ ''\<newline>''
     @ ''                    \<newline>''
     @ ''                    SUMMARY OF THIS PART:''"

definition final_prompt :: "string \<Rightarrow> string \<Rightarrow> string" where
  "final_prompt video_title combined_summaries =
     ''Below are summaries of different parts of a YouTube video titled ''
     @ [CHR 0x27]
     @ video_title
     @ [CHR 0x27]
     @ ''.\<newline>''
     @ ''                Please create a comprehensive yet concise final summary (250-300 words) that integrates all these parts into a coherent overview.\<newline>''
     @ ''                Focus on the most important points and ensure the summary gives a complete picture of the video content.\<newline>''
     @ ''                \<newline>''
     @ ''                PART SUMMARIES:\<newline>''
     @ ''                ''
     @ combined_summaries
     @ ''\<newline>''
     @ ''                \<newline>''
     @ ''                FINAL COMPREHENSIVE SUMMARY:''"

definition direct_prompt :: "string \<Rightarrow> string \<Rightarrow> string" where
  "direct_prompt video_title transcript =
     ''Below is the transcript of a YouTube video titled ''
     @ [CHR 0x27]
     @ video_title
     @ [CHR 0x27]
     @ ''. \<newline>''
     @ ''                Please provide a comprehensive yet concise summary (200-300 words) that captures the main points and key insights from the entire video.\<newline>''
     @ ''                Focus on the most important information and ensure the summary gives a complete overview of what the video is about.\<newline>''
     @ ''                \<newline>''
     @ ''                TRANSCRIPT:\<newline>''
     @ ''                ''
     @ transcript
     @ ''\<newline>''
     @ ''                \<newline>''
     @ ''                SUMMARY:''"

definition video_summarizer_system :: string where
  "video_summarizer_system =
     ''You are an expert video summarizer. Create concise, informative summaries that capture the essence of video content.''"

definition chunk_request :: "nat \<Rightarrow> nat \<Rightarrow> string \<Rightarrow> string \<Rightarrow> request" where
  \<comment> \<open>the request for the chunk of index \<open>i\<close> out of \<open>n\<close>\<close>
  "chunk_request i n video_title chunk =
     \<lparr>model = ''gpt-3.5-turbo-16k'', system_msg = video_summarizer_system,
      user_msg = chunk_prompt (show_nat (i + 1)) (show_nat n) video_title chunk,
      max_tokens = 500, temperature = 1 / 2\<rparr>"

definition final_request :: "string \<Rightarrow> string \<Rightarrow> request" where
  "final_request video_title combined_summaries =
     \<lparr>model = ''gpt-3.5-turbo-16k'', system_msg = synthesis_system,
      user_msg = final_prompt video_title combined_summaries,
      max_tokens = 600, temperature = 1 / 2\<rparr>"

definition direct_request :: "string \<Rightarrow> string \<Rightarrow> request" where
  "direct_request video_title transcript =
     \<lparr>model = ''gpt-3.5-turbo-16k'', system_msg = video_summarizer_system,
      user_msg = direct_prompt video_title transcript,
      max_tokens = 500, temperature = 1 / 2\<rparr>"

definition max_chunk_size :: nat where
  "max_chunk_size = 12000"

function char_chunks :: "nat \<Rightarrow> string \<Rightarrow> string list" where
  \<comment> \<open>\<open>[s[i:i+n] for i in range(0, len(s), n)]\<close> for a positive \<open>n\<close>\<close>
  "char_chunks n s = (if n = 0 \<or> s = [] then [] else take n s # char_chunks n (drop n s))"
  by pat_completeness auto
termination
  by (relation "measure (\<lambda>(n, s). length s)") auto

declare char_chunks.simps [simp del]

fun chunk_attempts ::
    "llm \<Rightarrow> request \<Rightarrow> nat list \<Rightarrow> string list \<Rightarrow> string option \<Rightarrow> world
      \<Rightarrow> string list \<times> string option \<times> world" where
  \<comment> \<open>the retry loop for one chunk, with the variables \<open>chunk_summaries\<close> and
      \<open>chunk_summary\<close> it assigns; a good summary is appended and the loop left\<close>
  "chunk_attempts llm req [] chunk_summaries chunk_summary w = (chunk_summaries, chunk_summary, w)"
| "chunk_attempts llm req (attempt # rest) chunk_summaries chunk_summary w =
     (case create_completion llm req w of
        (Content c, w') \<Rightarrow>
          (let s = strip c in
           if s \<noteq> [] \<and> length s > 50 then (chunk_summaries @ [s], Some s, w')
           else chunk_attempts llm req rest chunk_summaries (Some s) w')
      | (ApiError, w') \<Rightarrow>
          chunk_attempts llm req rest chunk_summaries chunk_summary
            (if attempt < max_retries - 1 then sleep 2 w' else w'))"

fun summarize_parts ::
    "(string \<Rightarrow> nat \<Rightarrow> string) \<Rightarrow> llm \<Rightarrow> string \<Rightarrow> nat \<Rightarrow> nat \<Rightarrow> string list \<Rightarrow> string list
      \<Rightarrow> world \<Rightarrow> string list \<times> world" where
  \<comment> \<open>\<open>for i, chunk in enumerate(chunks)\<close>, from index \<open>i\<close>, with \<open>n = len(chunks)\<close>\<close>
  "summarize_parts simple llm video_title n i [] chunk_summaries w = (chunk_summaries, w)"
| "summarize_parts simple llm video_title n i (chunk # chunks) chunk_summaries w =
     (case chunk_attempts llm (chunk_request i n video_title chunk) [0..<max_retries]
             chunk_summaries None w of
        (chunk_summaries', chunk_summary, w') \<Rightarrow>
          summarize_parts simple llm video_title n (i + 1) chunks
            (if chunk_summary = None \<or> chunk_summary = Some [] \<or> length (the chunk_summary) \<le> 50
             then chunk_summaries' @ [simple chunk 3] else chunk_summaries')
            w')"

definition generate_openai_summary ::
    "bool \<Rightarrow> (string \<Rightarrow> nat \<Rightarrow> string) \<Rightarrow> llm \<Rightarrow> string \<Rightarrow> string \<Rightarrow> world
      \<Rightarrow> string option \<times> world" where
  \<comment> \<open>the first argument is the truth of \<open>openai.api_key\<close>; \<open>simple\<close> is
      \<open>self.simple_summarize\<close>, which handles its own exceptions\<close>
  "generate_openai_summary api_key simple llm transcript video_title w =
     (if \<not> api_key then (None, w)
      else if word_count transcript < 200 then (Some transcript, w)
      else if length transcript > max_chunk_size then
        (let chunks = char_chunks max_chunk_size transcript in
         case summarize_parts simple llm video_title (length chunks) 0 chunks [] w of
           (chunk_summaries, w') \<Rightarrow>
             (let combined_summaries = join (nl @ nl) (label_parts 0 chunk_summaries) in
              case retry_loop 100 llm (final_request video_title combined_summaries)
                     [0..<max_retries] w' of
                (Some final_summary, w'') \<Rightarrow> (Some final_summary, w'')
              | (None, w'') \<Rightarrow> (Some (join '' '' chunk_summaries), w'')))
      else retry_loop 100 llm (direct_request video_title transcript) [0..<max_retries] w)"

definition generate_fallback_summary ::
    "(string \<Rightarrow> nat \<Rightarrow> string option) \<Rightarrow> (string \<Rightarrow> nat \<Rightarrow> string) \<Rightarrow> string \<Rightarrow> string" where
  \<comment> \<open>\<open>lexrank\<close> is \<open>self.lexrank_summarize\<close> (the sumy library; \<open>None\<close> when it raises)\<close>
  "generate_fallback_summary lexrank simple transcript =
     (if word_count transcript < 200 then transcript
      else case lexrank transcript 10 of
        None \<Rightarrow> simple transcript 10
      | Some lexrank_summary \<Rightarrow>
          if lexrank_summary = [] \<or> length lexrank_summary < 100 then simple transcript 10
          else lexrank_summary)"

definition process_summary_text ::
    "bool \<Rightarrow> (string \<Rightarrow> nat \<Rightarrow> string option) \<Rightarrow> (string \<Rightarrow> nat \<Rightarrow> string) \<Rightarrow> llm
      \<Rightarrow> string \<Rightarrow> string \<Rightarrow> world \<Rightarrow> string \<times> world" where
  \<comment> \<open>lines 56 to 70 of \<open>process\<close>: the value of \<open>summary_text\<close>\<close>
  "process_summary_text api_key lexrank simple llm transcript video_title w =
     (let words = split_ws transcript;
          processed_transcript =
            (if length words > 15000 then join '' '' (take 15000 words) else transcript)
      in case generate_openai_summary api_key simple llm processed_transcript video_title w of
           (Some summary_text, w') \<Rightarrow>
             if summary_text = []
             then (generate_fallback_summary lexrank simple processed_transcript, w')
             else (summary_text, w')
         | (None, w') \<Rightarrow> (generate_fallback_summary lexrank simple processed_transcript, w'))"

definition short_reply :: llm where
  \<comment> \<open>a model that always answers, too briefly\<close>
  "short_reply n req = Content ''Too short.''"

definition good_reply :: llm where
  \<comment> \<open>a model that always answers with 60 characters\<close>
  "good_reply n req = Content ''This talk explains the main idea and gives a worked example.''"

definition flaky_reply :: llm where
  \<comment> \<open>a model that raises on the first two requests and answers too briefly afterwards\<close>
  "flaky_reply n req = (if n < 2 then ApiError else Content ''Too short.'')"

definition empty_world :: world where
  "empty_world = \<lparr>requests = [], sleeps = []\<rparr>"

definition words_of_a :: "nat \<Rightarrow> string" where
  \<comment> \<open>\<open>"a " * n\<close>\<close>
  "words_of_a n = concat (replicate n ''a '')"

definition first_words :: "string \<Rightarrow> nat \<Rightarrow> string" where
  \<comment> \<open>a stand-in for the extractive summarizers: the first \<open>n\<close> words\<close>
  "first_words s n = join '' '' (take n (split_ws s))"

definition unusable :: "nat \<Rightarrow> completion \<Rightarrow> bool" where
  \<comment> \<open>the attempt fails: the request raises, or the stripped content is empty or has at
      most \<open>min_len\<close> characters\<close>
  "unusable min_len c =
     (case c of ApiError \<Rightarrow> True | Content s \<Rightarrow> strip s = [] \<or> length (strip s) \<le> min_len)"

definition pause_after :: "completion \<Rightarrow> nat list" where
  \<comment> \<open>the sleeps that follow an attempt which is not the last: 2 seconds after an
      exception, none after a response\<close>
  "pause_after c = (case c of ApiError \<Rightarrow> [2] | Content s \<Rightarrow> [])"

definition lexrank_unavailable :: "string \<Rightarrow> nat \<Rightarrow> string option" where
  \<comment> \<open>\<open>lexrank_summarize\<close> when the library raises\<close>
  "lexrank_unavailable t n = None"


section \<open>The frequency summarizer (simple\_app.py, \<open>SummaryAgent._simple_summarize\<close>)\<close>























section \<open>The frequency summarizer (improved\_summary\_agent.py, \<open>simple_summarize\<close>)\<close>









section \<open>Properties\<close>

lemma id11_shape: "id11 s = Some v \<Longrightarrow> length v = 11 \<and> list_all id_char v"
  by (auto simp: id11_def split: if_splits)

lemma re_search_shape:
  assumes "\<And>s v. m s = Some v \<Longrightarrow> P v"
  shows "re_search m s = Some v \<Longrightarrow> P v"
  using assms by (induction s) (auto split: option.splits)

lemma pat_standard_shape: "pat_standard s = Some v \<Longrightarrow> length v = 11 \<and> list_all id_char v"
  by (auto simp: pat_standard_def dest: id11_shape split: if_splits)

lemma pat_short_shape: "pat_short s = Some v \<Longrightarrow> length v = 11 \<and> list_all id_char v"
  by (auto simp: pat_short_def dest: id11_shape split: if_splits)

lemma pat_shorts_shape: "pat_shorts s = Some v \<Longrightarrow> length v = 11 \<and> list_all id_char v"
  by (auto simp: pat_shorts_def dest: id11_shape split: if_splits)

lemma pat_direct_shape: "pat_direct s = Some v \<Longrightarrow> length v = 11 \<and> list_all id_char v"
  by (auto simp: pat_direct_def dest: id11_shape split: option.splits if_splits)

lemma search_standard_shape:
  "re_search pat_standard s = Some v \<Longrightarrow> length v = 11 \<and> list_all id_char v"
  using re_search_shape[of pat_standard "\<lambda>v. length v = 11 \<and> list_all id_char v" s v]
    pat_standard_shape by blast

lemma search_short_shape:
  "re_search pat_short s = Some v \<Longrightarrow> length v = 11 \<and> list_all id_char v"
  using re_search_shape[of pat_short "\<lambda>v. length v = 11 \<and> list_all id_char v" s v]
    pat_short_shape by blast

lemma search_shorts_shape:
  "re_search pat_shorts s = Some v \<Longrightarrow> length v = 11 \<and> list_all id_char v"
  using re_search_shape[of pat_shorts "\<lambda>v. length v = 11 \<and> list_all id_char v" s v]
    pat_shorts_shape by blast

text \<open>
  C10. Whatever the input string, \<open>extract_video_id\<close> returns \<open>None\<close> or a string of
  exactly 11 characters, each an ASCII letter, a digit, an underscore or a hyphen.
\<close>

theorem extract_video_id_well_formed:
  "extract_video_id url = Some v \<Longrightarrow> length v = 11 \<and> list_all id_char v"
  unfolding extract_video_id_def
  by (auto split: option.splits
      dest: search_standard_shape search_short_shape search_shorts_shape pat_direct_shape)

theorem extract_video_id_well_formed_witness:
  "extract_video_id ''https://www.youtube.com/watch?v=dQw4w9WgXcQ'' = Some ''dQw4w9WgXcQ''
   \<and> length ''dQw4w9WgXcQ'' = 11 \<and> list_all id_char ''dQw4w9WgXcQ''"
proof -
  have h: "extract_video_id ''https://www.youtube.com/watch?v=dQw4w9WgXcQ'' = Some ''dQw4w9WgXcQ''"
    by code_simp
  show ?thesis using h extract_video_id_well_formed [OF h] by simp
qed







text \<open>
  C8, as stated, at the parsing loop of \<open>OpenAISummarizer.extract_key_points\<close>: after the
  numbering is removed the line starts with a bracket, the pattern \<open>mm:ss - text\<close> does
  not match, and no key point is parsed from the model output \<open>1. [2:30] Point A\<close>,
  newline, \<open>2. [5:45] Point B\<close>.
\<close>

theorem openai_parse_brackets_counterexample:
  "openai_parse_key_points ''1. [2:30] Point A\<newline>2. [5:45] Point B'' = []
   \<and> openai_parse_key_points ''1. [2:30] Point A\<newline>2. [5:45] Point B'' \<noteq>
       [\<lparr>timestamp = ''2:30'', point = ''Point A''\<rparr>, \<lparr>timestamp = ''5:45'', point = ''Point B''\<rparr>]"
  by code_simp

text \<open>
  C8, amended. From the model output \<open>1. [2:30] Point A\<close>, newline, \<open>2. [5:45] Point B\<close>
  the parsing loop of \<open>ImprovedSummaryAgent.extract_key_points_with_openai\<close> yields exactly
  two key points, \<open>2:30\<close> with \<open>Point A\<close> and then \<open>5:45\<close> with \<open>Point B\<close>; the parsing
  loop of \<open>OpenAISummarizer.extract_key_points\<close>, which reads \<open>mm:ss - text\<close> lines,
  yields none.
\<close>

theorem parse_key_points_two_points:
  "parse_key_points ''1. [2:30] Point A\<newline>2. [5:45] Point B'' =
     [\<lparr>timestamp = ''2:30'', point = ''Point A''\<rparr>, \<lparr>timestamp = ''5:45'', point = ''Point B''\<rparr>]
   \<and> openai_parse_key_points ''1. [2:30] Point A\<newline>2. [5:45] Point B'' = []"
  by code_simp

text \<open>
  C4, as stated, at \<open>ImprovedTranscriptAgent.process\<close>: when the fetch fails the agent
  raises an HTTP 404 error to its caller and returns no transcript.
\<close>

theorem transcript_agent_raises_counterexample:
  "no_captions_api ''dQw4w9WgXcQ'' = FetchError ''Subtitles are disabled for this video''
   \<and> transcript_agent_process no_captions_api ''dQw4w9WgXcQ'' =
       Inl (HTTPException 404 ''Failed to get transcript: Subtitles are disabled for this video'')"
  by (simp add: transcript_agent_process_def no_captions_api_def)

text \<open>
  C4, amended. For every video id whose transcript fetch fails, \<open>get_transcript\<close> of the
  API server returns the fixed mock transcript, the same ten lines for every id, and
  raises nothing; \<open>ImprovedTranscriptAgent.process\<close> raises an HTTP 404 error that carries
  the failure's message.
\<close>

theorem get_transcript_placeholder:
  assumes "api video_id = FetchError e"
  shows "get_transcript available api video_id = generate_mock_transcript video_id
    \<and> generate_mock_transcript video_id = generate_mock_transcript []
    \<and> length (generate_mock_transcript video_id) = 10
    \<and> transcript_agent_process api video_id =
        Inl (HTTPException 404 (''Failed to get transcript: '' @ e))"
  using assms
  by (simp add: get_transcript_def generate_mock_transcript_def transcript_agent_process_def)

theorem get_transcript_placeholder_witness:
  "no_captions_api ''dQw4w9WgXcQ'' = FetchError ''Subtitles are disabled for this video''
   \<and> get_transcript True no_captions_api ''dQw4w9WgXcQ'' = generate_mock_transcript ''dQw4w9WgXcQ''
   \<and> length (generate_mock_transcript ''dQw4w9WgXcQ'') = 10"
proof -
  have h: "no_captions_api ''dQw4w9WgXcQ'' = FetchError ''Subtitles are disabled for this video''"
    by (simp add: no_captions_api_def)
  show ?thesis
    using h get_transcript_placeholder [of no_captions_api "''dQw4w9WgXcQ''" _ True, OF h] by blast
qed

lemma fallback_titles_two:
  "carries_title s0 t0 \<Longrightarrow> carries_title s1 t1 \<Longrightarrow>
   fallback_titles i (s0 # s1 # rest) = t0 # t1 # fallback_titles (i + 2) rest"
  by (cases s0; cases s1) (auto simp: carries_title_def)

lemma mentions_in_orderI: "s = pre @ a @ mid @ b @ post \<Longrightarrow> mentions_in_order s a b"
  unfolding mentions_in_order_def by blast

lemma fallback_comparison_two:
  assumes "carries_title s0 t0" and "carries_title s1 t1"
  shows "generate_fallback_comparison (s0 # s1 # rest) =
    \<lparr>commonTopics = [''Both videos discuss related topics'', ''They share educational content''],
     differences =
       [t0 @ '' focuses more on theory, while '' @ t1 @ '' is more practical'',
        t0 @ '' is more detailed in some areas, while '' @ t1 @ '' covers additional points''],
     recommendation =
       ''Watch '' @ t0 @ '' first for background, then '' @ t1 @ '' for practical applications.''\<rparr>"
proof -
  have ft: "fallback_titles 0 (s0 # s1 # rest) = t0 # t1 # fallback_titles (0 + 2) rest"
    by (rule fallback_titles_two[OF assms])
  show ?thesis
    unfolding generate_fallback_comparison_def ft by (simp add: Let_def)
qed

text \<open>
  C9. For a list of two or more summaries whose first two carry the titles \<open>t0\<close> and
  \<open>t1\<close>, when there is no API key, or the completion call fails, or its output does not
  parse, \<open>compare_videos\<close> returns the templated result: the two fixed common topics, two
  differences that each name \<open>t0\<close> and then \<open>t1\<close>, and a recommendation that names
  \<open>t0\<close> before \<open>t1\<close>. The model has no exception on this path.
\<close>

theorem compare_videos_fallback_titles:
  assumes "summaries = s0 # s1 # rest"
    and "carries_title s0 t0" and "carries_title s1 t1"
    and "\<not> api_key \<or> reply = CallFailed \<or> reply = Unparsable"
  shows "compare_videos api_key reply summaries =
      \<lparr>commonTopics = [''Both videos discuss related topics'', ''They share educational content''],
       differences =
         [t0 @ '' focuses more on theory, while '' @ t1 @ '' is more practical'',
          t0 @ '' is more detailed in some areas, while '' @ t1 @ '' covers additional points''],
       recommendation =
         ''Watch '' @ t0 @ '' first for background, then '' @ t1 @ '' for practical applications.''\<rparr>
    \<and> list_all (\<lambda>d. mentions_in_order d t0 t1) (differences (compare_videos api_key reply summaries))
    \<and> mentions_in_order (recommendation (compare_videos api_key reply summaries)) t0 t1"
proof -
  have fb: "compare_videos api_key reply summaries = generate_fallback_comparison summaries"
    using assms(1,4) by (auto simp: compare_videos_def split: comparison_reply.splits)
  have eq: "compare_videos api_key reply summaries =
      \<lparr>commonTopics = [''Both videos discuss related topics'', ''They share educational content''],
       differences =
         [t0 @ '' focuses more on theory, while '' @ t1 @ '' is more practical'',
          t0 @ '' is more detailed in some areas, while '' @ t1 @ '' covers additional points''],
       recommendation =
         ''Watch '' @ t0 @ '' first for background, then '' @ t1 @ '' for practical applications.''\<rparr>"
    using fb fallback_comparison_two[OF assms(2,3), of rest] assms(1) by simp
  have d1: "mentions_in_order (t0 @ '' focuses more on theory, while '' @ t1 @ '' is more practical'') t0 t1"
    by (rule mentions_in_orderI[of _ "[]" _ "'' focuses more on theory, while ''" _ "'' is more practical''"]) simp
  have d2: "mentions_in_order
      (t0 @ '' is more detailed in some areas, while '' @ t1 @ '' covers additional points'') t0 t1"
    by (rule mentions_in_orderI[of _ "[]" _ "'' is more detailed in some areas, while ''" _
          "'' covers additional points''"]) simp
  have r: "mentions_in_order
      (''Watch '' @ t0 @ '' first for background, then '' @ t1 @ '' for practical applications.'') t0 t1"
    by (rule mentions_in_orderI[of _ "''Watch ''" _ "'' first for background, then ''" _
          "'' for practical applications.''"]) simp
  show ?thesis
    unfolding eq using d1 d2 r by (simp del: append.simps append_Cons)
qed

theorem compare_videos_fallback_titles_witness:
  "carries_title (DictItem [(''title'', ''Intro to X'')]) ''Intro to X''
   \<and> carries_title (ObjItem (Some ''Advanced X'') None) ''Advanced X''
   \<and> recommendation (compare_videos False CallFailed
        [DictItem [(''title'', ''Intro to X'')], ObjItem (Some ''Advanced X'') None]) =
      ''Watch Intro to X first for background, then Advanced X for practical applications.''
   \<and> differences (compare_videos False CallFailed
        [DictItem [(''title'', ''Intro to X'')], ObjItem (Some ''Advanced X'') None]) =
      [''Intro to X focuses more on theory, while Advanced X is more practical'',
       ''Intro to X is more detailed in some areas, while Advanced X covers additional points'']"
proof -
  have h0: "[DictItem [(''title'', ''Intro to X'')], ObjItem (Some ''Advanced X'') None] =
      DictItem [(''title'', ''Intro to X'')] # ObjItem (Some ''Advanced X'') None # []"
    by simp
  have h1: "carries_title (DictItem [(''title'', ''Intro to X'')]) ''Intro to X''"
    by (simp add: carries_title_def)
  have h2: "carries_title (ObjItem (Some ''Advanced X'') None) ''Advanced X''"
    by (simp add: carries_title_def)
  have h3: "\<not> False \<or> CallFailed = CallFailed \<or> CallFailed = Unparsable"
    by simp
  show ?thesis
    using h1 h2 compare_videos_fallback_titles [OF h0 h1 h2 h3] by simp
qed

lemma split_acc_space:
  "is_space c \<Longrightarrow> split_acc cur (s @ c # t) = split_acc cur s @ split_acc [] t"
  by (induction s arbitrary: cur) auto

lemma split_ws_space: "is_space c \<Longrightarrow> split_ws (s @ c # t) = split_ws s @ split_ws t"
  by (simp add: split_ws_def split_acc_space)

lemma split_ws_spaces:
  "\<forall>c\<in>set sp. is_space c \<Longrightarrow> sp \<noteq> [] \<Longrightarrow> split_ws (s @ sp @ t) = split_ws s @ split_ws t"
proof (induction sp arbitrary: s)
  case Nil
  then show ?case by simp
next
  case (Cons c sp)
  show ?case
  proof (cases "sp = []")
    case True
    then show ?thesis using Cons.prems split_ws_space[of c s t] by simp
  next
    case False
    have "split_ws (s @ (c # sp) @ t) = split_ws s @ split_ws (sp @ t)"
      using Cons.prems split_ws_space[of c s "sp @ t"] by simp
    also have "split_ws (sp @ t) = split_ws ([] @ sp @ t)" by simp
    also have "\<dots> = split_ws [] @ split_ws t"
      using Cons.IH[of "[]"] Cons.prems False by simp
    finally show ?thesis by (simp add: split_ws_def)
  qed
qed

lemma split_ws_join: "split_ws (join '' '' us) = concat (map split_ws us)"
proof (induction "'' ''" us rule: join.induct)
  case 1
  then show ?case by (simp add: split_ws_def)
next
  case (2 x)
  then show ?case by simp
next
  case (3 x y ys)
  have sp: "is_space CHR '' ''" by (simp add: is_space_def code_def)
  have "split_ws (join '' '' (x # y # ys)) = split_ws (x @ CHR '' '' # join '' '' (y # ys))"
    by simp
  also have "\<dots> = split_ws x @ split_ws (join '' '' (y # ys))"
    using sp by (rule split_ws_space)
  finally show ?case using 3 by simp
qed

lemma word_count_join: "word_count (join '' '' us) = sum_list (map word_count us)"
  unfolding word_count_def split_ws_join by (induction us) simp_all

lemma combine_loop_words:
  "concat (map split_ws (combine_loop W chunks cur sz us)) =
   concat (map split_ws chunks) @ concat (map split_ws cur) @ concat (map split_ws us)"
  by (induction us arbitrary: chunks cur sz) (auto simp: Let_def split_ws_join)

lemma re_split_acc_words:
  assumes "\<And>p c. gap p c \<Longrightarrow> is_space c"
  shows "concat (map split_ws (re_split_acc gap prev cur s)) = split_ws (rev cur @ s)"
proof (induction s arbitrary: prev cur)
  case Nil
  then show ?case by simp
next
  case (Cons c cs)
  show ?case
  proof (cases "gap prev c")
    case True
    then have "is_space c" by (rule assms)
    then show ?thesis using True Cons.IH[of "c # prev" "[]"] by (simp add: split_ws_space)
  next
    case False
    then show ?thesis using Cons.IH[of "c # prev" "c # cur"] by simp
  qed
qed

lemma startswith_decomp: "startswith s p \<Longrightarrow> s = p @ drop (length p) s"
  by (metis append_take_drop_id startswith_def)

lemma split_sep_words:
  "sep \<noteq> [] \<Longrightarrow> \<forall>c\<in>set sep. is_space c \<Longrightarrow>
   concat (map split_ws (split_sep sep cur s)) = split_ws (rev cur @ s)"
proof (induction sep cur s rule: split_sep.induct)
  case (1 sep cur)
  then show ?case by simp
next
  case (2 sep cur c cs)
  show ?case
  proof (cases "startswith (c # cs) sep")
    case True
    have dr: "drop (length sep) (c # cs) = drop (length sep - 1) cs"
      using 2(3) by (cases sep) auto
    have "c # cs = sep @ drop (length sep - 1) cs"
      using startswith_decomp[OF True] dr by simp
    then have "split_ws (rev cur @ c # cs) = split_ws (rev cur @ sep @ drop (length sep - 1) cs)"
      by simp
    also have "\<dots> = split_ws (rev cur) @ split_ws (drop (length sep - 1) cs)"
      using split_ws_spaces[OF 2(4) 2(3)] by simp
    finally show ?thesis using True 2(1)[OF True 2(3) 2(4)] by simp
  next
    case False
    then show ?thesis using 2(2)[OF False 2(3) 2(4)] by simp
  qed
qed

lemma sentence_gap_space: "sentence_gap p c \<Longrightarrow> is_space c"
  by (simp add: sentence_gap_def)

lemma split_units_words: "concat (map split_ws (split_units t)) = split_ws t"
proof -
  have nlsp: "\<forall>c\<in>set (nl @ nl). is_space c"
    by (simp add: nl_def is_space_def code_def)
  have a: "concat (map split_ws (split_on (nl @ nl) t)) = split_ws t"
    using split_sep_words[of "nl @ nl" "[]" t] nlsp by (simp add: split_on_def nl_def)
  have b: "concat (map split_ws (re_split sentence_gap t)) = split_ws t"
    using re_split_acc_words[of sentence_gap "[]" "[]" t] sentence_gap_space
    by (simp add: re_split_def)
  show ?thesis using a b by (simp add: split_units_def Let_def)
qed

lemma chunks_keep_words: "split_ws (join '' '' (split_into_chunks t W)) = split_ws t"
  by (simp add: split_ws_join split_into_chunks_def combine_units_def combine_loop_words
      split_units_words)

lemma combine_loop_bound:
  assumes "\<forall>c\<in>set chunks. word_count c \<le> W \<or> (c \<in> U \<and> W < word_count c)"
    and "sz = sum_list (map word_count cur)"
    and "sz \<le> W \<or> (\<exists>u\<in>U. cur = [u])"
    and "set us \<subseteq> U"
  shows "\<forall>c\<in>set (combine_loop W chunks cur sz us).
           word_count c \<le> W \<or> (c \<in> U \<and> W < word_count c)"
  using assms
proof (induction us arbitrary: chunks cur sz)
  case Nil
  have "word_count (join '' '' cur) \<le> W \<or> (join '' '' cur \<in> U \<and> W < word_count (join '' '' cur))"
    using Nil(2,3) by (auto simp: word_count_join)
  then show ?case using Nil(1) by auto
next
  case (Cons u us)
  have cur_ok: "word_count (join '' '' cur) \<le> W \<or> (join '' '' cur \<in> U \<and> W < word_count (join '' '' cur))"
    using Cons.prems(2,3) by (auto simp: word_count_join)
  show ?case
  proof (cases "sz + word_count u \<le> W")
    case True
    have "\<forall>c\<in>set (combine_loop W chunks (cur @ [u]) (sz + word_count u) us).
           word_count c \<le> W \<or> (c \<in> U \<and> W < word_count c)"
      using Cons.prems True by (intro Cons.IH) auto
    then show ?thesis using True by (simp add: Let_def)
  next
    case False
    have "\<forall>c\<in>set (combine_loop W (if cur \<noteq> [] then chunks @ [join '' '' cur] else chunks)
              [u] (word_count u) us).
           word_count c \<le> W \<or> (c \<in> U \<and> W < word_count c)"
      using Cons.prems cur_ok by (intro Cons.IH) auto
    then show ?thesis using False by (simp add: Let_def)
  qed
qed

lemma chunks_within_bound:
  "c \<in> set (split_into_chunks t W) \<Longrightarrow>
   word_count c \<le> W \<or> (c \<in> set (split_units t) \<and> W < word_count c)"
  using combine_loop_bound[of "[]" W "set (split_units t)" 0 "[]" "split_units t"]
  by (simp add: split_into_chunks_def combine_units_def)

lemma oversized_unit_then_empty_unit:
  "W < word_count u \<Longrightarrow> combine_units [u, []] W = [u, []]"
  by (simp add: combine_units_def Let_def word_count_def split_ws_def)

text \<open>
  C1. Three things are expected of the chunker: the chunks keep every word of the
  input in order, a chunk exceeds the bound only when it is a single unit that does, and
  no chunk is empty unless the input is. The first two are \<open>chunks_keep_words\<close> and
  \<open>chunks_within_bound\<close> above. The third fails: after a unit of more than \<open>W\<close>
  words, an empty unit (here the empty piece that follows the last sentence gap) cannot
  join the current chunk and starts a chunk of its own, and the test \<open>if current_chunk\<close>
  lets the list that holds only the empty string through. The theorem evaluates
  \<open>_split_into_chunks\<close> on the sentence \<open>a b.\<close> followed by a space, with bound 1, and
  on three paragraphs of which the last is empty.
\<close>

theorem split_into_chunks_empty_chunk:
  "split_into_chunks ''a b. '' 1 = [''a b.'', []]
   \<and> split_into_chunks ''a b\<newline>\<newline>c d\<newline>\<newline>'' 1 = [''a b'', ''c d'', []]"
  by code_simp

lemma retry_step_fail:
  "unusable m (llm (length (requests w)) req) \<Longrightarrow>
   retry_loop m llm req (a # rest) w =
     retry_loop m llm req rest
       (w\<lparr>requests := requests w @ [req],
          sleeps := sleeps w @ (if a < max_retries - 1 then pause_after (llm (length (requests w)) req) else [])\<rparr>)"
  by (cases "llm (length (requests w)) req")
     (auto simp: unusable_def pause_after_def create_completion_def sleep_def Let_def)

lemma retry_three_fail:
  assumes "unusable m (llm (length (requests w)) req)"
    and "unusable m (llm (length (requests w) + 1) req)"
    and "unusable m (llm (length (requests w) + 2) req)"
  shows "retry_loop m llm req [0..<max_retries] w =
     (None, w\<lparr>requests := requests w @ [req, req, req],
               sleeps := sleeps w @ pause_after (llm (length (requests w)) req)
                           @ pause_after (llm (length (requests w) + 1) req)\<rparr>)"
proof -
  have r: "[0..<max_retries] = [0, 1, 2]"
    by (simp add: max_retries_def upt_rec)
  show ?thesis
    unfolding r using assms
    by (simp add: retry_step_fail max_retries_def del: retry_loop.simps(2))
qed

text \<open>
  C3, as stated, at \<open>generate_openai_summary\<close>: a model that answers every request with a
  too-short text is asked three times and the program never sleeps, so there is no wait of
  2 seconds between the attempts. The transcript has 200 words.
\<close>

theorem no_wait_after_short_reply_counterexample:
  "fst (generate_openai_summary True first_words short_reply (words_of_a 200) ''Talk'' empty_world) = None
   \<and> length (requests (snd (generate_openai_summary True first_words short_reply (words_of_a 200)
        ''Talk'' empty_world))) = 3
   \<and> sleeps (snd (generate_openai_summary True first_words short_reply (words_of_a 200)
        ''Talk'' empty_world)) = []"
  by code_simp

text \<open>
  C3, amended. When each of the three attempts raises or returns a text that is too short,
  the single-pass path of \<open>ImprovedSummaryAgent.generate_openai_summary\<close> sends the same
  request exactly three times, sleeps 2 seconds after the first and after the second
  attempt when that attempt raised (and not when it returned a short text), and returns
  \<open>None\<close>; it has no error result. \<open>OpenAISummarizer.summarize\<close> follows the same
  schedule and then returns the extractive summary itself instead of \<open>None\<close>.
\<close>

theorem retries_exhausted:
  "(api_key \<and> 200 \<le> word_count transcript \<and> length transcript \<le> max_chunk_size
     \<and> unusable 100 (llm (length (requests w)) (direct_request video_title transcript))
     \<and> unusable 100 (llm (length (requests w) + 1) (direct_request video_title transcript))
     \<and> unusable 100 (llm (length (requests w) + 2) (direct_request video_title transcript))
    \<longrightarrow> generate_openai_summary api_key simple llm transcript video_title w =
        (None,
         w\<lparr>requests := requests w @ replicate 3 (direct_request video_title transcript),
           sleeps := sleeps w
             @ pause_after (llm (length (requests w)) (direct_request video_title transcript))
             @ pause_after (llm (length (requests w) + 1) (direct_request video_title transcript))\<rparr>))
   \<and> (100 \<le> word_count text' \<and> word_count text' \<le> 4000
     \<and> unusable 50 (llm (length (requests w)) (summarize_request text' max_length))
     \<and> unusable 50 (llm (length (requests w) + 1) (summarize_request text' max_length))
     \<and> unusable 50 (llm (length (requests w) + 2) (summarize_request text' max_length))
    \<longrightarrow> summarize (Suc d) simple llm text' max_length min_length w =
        (Inr (simple text' max_length),
         w\<lparr>requests := requests w @ replicate 3 (summarize_request text' max_length),
           sleeps := sleeps w
             @ pause_after (llm (length (requests w)) (summarize_request text' max_length))
             @ pause_after (llm (length (requests w) + 1) (summarize_request text' max_length))\<rparr>))"
proof (intro conjI impI)
  assume h: "api_key \<and> 200 \<le> word_count transcript \<and> length transcript \<le> max_chunk_size
     \<and> unusable 100 (llm (length (requests w)) (direct_request video_title transcript))
     \<and> unusable 100 (llm (length (requests w) + 1) (direct_request video_title transcript))
     \<and> unusable 100 (llm (length (requests w) + 2) (direct_request video_title transcript))"
  have "retry_loop 100 llm (direct_request video_title transcript) [0..<max_retries] w =
     (None, w\<lparr>requests := requests w @ [direct_request video_title transcript,
                  direct_request video_title transcript, direct_request video_title transcript],
               sleeps := sleeps w
                 @ pause_after (llm (length (requests w)) (direct_request video_title transcript))
                 @ pause_after (llm (length (requests w) + 1) (direct_request video_title transcript))\<rparr>)"
    using h by (intro retry_three_fail) simp_all
  then show "generate_openai_summary api_key simple llm transcript video_title w =
        (None,
         w\<lparr>requests := requests w @ replicate 3 (direct_request video_title transcript),
           sleeps := sleeps w
             @ pause_after (llm (length (requests w)) (direct_request video_title transcript))
             @ pause_after (llm (length (requests w) + 1) (direct_request video_title transcript))\<rparr>)"
    using h by (simp add: generate_openai_summary_def numeral_3_eq_3)
next
  assume h: "100 \<le> word_count text' \<and> word_count text' \<le> 4000
     \<and> unusable 50 (llm (length (requests w)) (summarize_request text' max_length))
     \<and> unusable 50 (llm (length (requests w) + 1) (summarize_request text' max_length))
     \<and> unusable 50 (llm (length (requests w) + 2) (summarize_request text' max_length))"
  have ne: "text' \<noteq> []"
    using h by (auto simp: word_count_def split_ws_def)
  have "retry_loop 50 llm (summarize_request text' max_length) [0..<max_retries] w =
     (None, w\<lparr>requests := requests w @ [summarize_request text' max_length,
                  summarize_request text' max_length, summarize_request text' max_length],
               sleeps := sleeps w
                 @ pause_after (llm (length (requests w)) (summarize_request text' max_length))
                 @ pause_after (llm (length (requests w) + 1) (summarize_request text' max_length))\<rparr>)"
    using h by (intro retry_three_fail) simp_all
  then show "summarize (Suc d) simple llm text' max_length min_length w =
        (Inr (simple text' max_length),
         w\<lparr>requests := requests w @ replicate 3 (summarize_request text' max_length),
           sleeps := sleeps w
             @ pause_after (llm (length (requests w)) (summarize_request text' max_length))
             @ pause_after (llm (length (requests w) + 1) (summarize_request text' max_length))\<rparr>)"
    using h ne by (simp add: numeral_3_eq_3)
qed

theorem retries_exhausted_witness:
  "generate_openai_summary True first_words flaky_reply (words_of_a 200) ''Talk'' empty_world =
     (None, \<lparr>requests = replicate 3 (direct_request ''Talk'' (words_of_a 200)), sleeps = [2, 2]\<rparr>)
   \<and> summarize (Suc 0) first_words flaky_reply (words_of_a 200) 300 100 empty_world =
     (Inr (first_words (words_of_a 200) 300),
      \<lparr>requests = replicate 3 (summarize_request (words_of_a 200) 300), sleeps = [2, 2]\<rparr>)"
proof -
  have wc: "word_count (words_of_a 200) = 200" by code_simp
  have len: "length (words_of_a 200) \<le> max_chunk_size" by code_simp
  have u: "unusable k (flaky_reply i r)" if "k \<ge> 50" for k i r
    using that by (simp add: unusable_def flaky_reply_def strip_def is_space_def code_def)
  have p: "pause_after (flaky_reply 0 r) = [2]" "pause_after (flaky_reply (Suc 0) r) = [2]" for r
    by (simp_all add: pause_after_def flaky_reply_def)
  have e: "requests empty_world = []" "sleeps empty_world = []"
    by (simp_all add: empty_world_def)
  show ?thesis
    using retries_exhausted[of True "words_of_a 200" flaky_reply empty_world "''Talk''"
        first_words "words_of_a 200" 300 0 100]
    by (simp add: wc len u p e empty_world_def)
qed

text \<open>
  C5, as stated, at \<open>OpenAISummarizer.summarize\<close>: a text of 100 words is fewer than 200
  words, but the pass-through of this operation stops below 100 words, so the text is sent
  to the model and the model's summary is returned in its place.
\<close>

theorem summarize_hundred_words_counterexample:
  "word_count (words_of_a 100) = 100
   \<and> fst (summarize (Suc 0) first_words good_reply (words_of_a 100) 300 100 empty_world) =
       Inr ''This talk explains the main idea and gives a worked example.''
   \<and> fst (summarize (Suc 0) first_words good_reply (words_of_a 100) 300 100 empty_world) \<noteq>
       Inr (words_of_a 100)
   \<and> length (requests (snd (summarize (Suc 0) first_words good_reply (words_of_a 100) 300 100
        empty_world))) = 1"
  by code_simp

text \<open>
  C5, amended. For every transcript of fewer than 200 words the summary that
  \<open>ImprovedSummaryAgent\<close> produces is the transcript itself, with no request sent:
  \<open>generate_openai_summary\<close> returns it when the API key is set, and
  \<open>generate_fallback_summary\<close>, which \<open>process\<close> calls otherwise, returns it too.
  \<open>OpenAISummarizer.summarize\<close> returns its input unchanged when the input is empty or
  has fewer than 100 words.
\<close>

theorem short_text_pass_through:
  "(word_count transcript < 200 \<longrightarrow>
      process_summary_text api_key lexrank simple llm transcript video_title w = (transcript, w)
      \<and> generate_fallback_summary lexrank simple transcript = transcript
      \<and> (api_key \<longrightarrow>
           generate_openai_summary api_key simple llm transcript video_title w = (Some transcript, w)))
   \<and> (text' = [] \<or> word_count text' < 100 \<longrightarrow>
      summarize (Suc d) simple' llm text' max_length min_length w = (Inr text', w))"
proof (intro conjI impI)
  assume h: "word_count transcript < 200"
  then have le: "\<not> length (split_ws transcript) > 15000"
    by (simp add: word_count_def)
  have g: "generate_openai_summary api_key simple llm transcript video_title w =
      (if api_key then Some transcript else None, w)"
    using h by (simp add: generate_openai_summary_def)
  have f: "generate_fallback_summary lexrank simple transcript = transcript"
    using h by (simp add: generate_fallback_summary_def)
  have "process_summary_text api_key lexrank simple llm transcript video_title w =
      (case generate_openai_summary api_key simple llm transcript video_title w of
         (Some summary_text, w') \<Rightarrow>
           if summary_text = [] then (generate_fallback_summary lexrank simple transcript, w')
           else (summary_text, w')
       | (None, w') \<Rightarrow> (generate_fallback_summary lexrank simple transcript, w'))"
    unfolding process_summary_text_def Let_def if_not_P[OF le] by (rule refl)
  then show "process_summary_text api_key lexrank simple llm transcript video_title w = (transcript, w)"
    unfolding g f by (cases api_key) auto
  show "generate_fallback_summary lexrank simple transcript = transcript"
    using h by (simp add: generate_fallback_summary_def)
  assume "api_key"
  then show "generate_openai_summary api_key simple llm transcript video_title w = (Some transcript, w)"
    using h by (simp add: generate_openai_summary_def)
next
  assume "text' = [] \<or> word_count text' < 100"
  then show "summarize (Suc d) simple' llm text' max_length min_length w = (Inr text', w)"
    by auto
qed

theorem short_text_pass_through_witness:
  "process_summary_text False lexrank_unavailable first_words good_reply (words_of_a 150) ''Talk'' empty_world =
     (words_of_a 150, empty_world)
   \<and> generate_openai_summary True first_words good_reply (words_of_a 150) ''Talk'' empty_world =
     (Some (words_of_a 150), empty_world)
   \<and> summarize (Suc 0) first_words good_reply (words_of_a 50) 300 100 empty_world =
     (Inr (words_of_a 50), empty_world)"
proof -
  have h1: "word_count (words_of_a 150) < 200" by code_simp
  have h2: "word_count (words_of_a 50) < 100" by code_simp
  show ?thesis
    using h1 h2
      short_text_pass_through[of "words_of_a 150" False lexrank_unavailable first_words good_reply
        "''Talk''" empty_world "words_of_a 50" 0 first_words 300 100]
      short_text_pass_through[of "words_of_a 150" True lexrank_unavailable first_words good_reply
        "''Talk''" empty_world "words_of_a 50" 0 first_words 300 100]
    by simp
qed



















































































end
